theory Spec2Isabelle
  imports Main
begin

section \<open>loady: a shallow embedding of lib/loady.js\<close>

text \<open>
  The module exports one function, \<open>loady(name, path)\<close>, with two helpers
  (\<open>getRoot\<close>, \<open>ensurePath\<close>), two constant tables (\<open>defaults\<close>, \<open>paths\<close>)
  and one module-level object (\<open>cache\<close>).

  JavaScript strings are modelled as \<open>string\<close>. The functions that the module
  imports from Node (\<open>path.extname\<close>, \<open>path.join\<close>, \<open>path.resolve\<close>,
  \<open>path.dirname\<close>, \<open>url.fileURLToPath\<close>), the \<open>process\<close> object, the file
  system (\<open>fs.existsSync\<close>) and the module loader (\<open>require\<close>) are not part of
  the module: they are parameters of the model, collected in the records
  \<open>node\<close> and \<open>world\<close>. A concrete POSIX host is defined further down and is
  used to run the model on concrete inputs.
\<close>

subsection \<open>JavaScript values\<close>

text \<open>
  The values the module inspects: its two arguments (\<open>typeof\<close>), the value
  returned by the loader (truthiness, in \<open>if (cache[key])\<close>) and the
  properties \<open>code\<close> and \<open>message\<close> of a caught exception. \<open>JSNumber\<close> holds
  the integer-valued numbers, \<open>JSObject\<close> an object reference.
\<close>

datatype js_value =
    JSUndefined
  | JSNull
  | JSBoolean bool
  | JSNumber int
  | JSString string
  | JSObject nat

fun truthy :: "js_value \<Rightarrow> bool" where
  "truthy JSUndefined = False"
| "truthy JSNull = False"
| "truthy (JSBoolean b) = b"
| "truthy (JSNumber n) = (n \<noteq> 0)"
| "truthy (JSString s) = (s \<noteq> [])"
| "truthy (JSObject r) = True"

fun digits :: "nat \<Rightarrow> string" where
  "digits n = (if n < 10 then [''0123456789'' ! n]
               else digits (n div 10) @ [''0123456789'' ! (n mod 10)])"

text \<open>\<open>ToString\<close>, as applied by \<open>RegExp.prototype.test\<close> to its argument
  (an object is taken to have the default \<open>toString\<close>).\<close>

fun to_string :: "js_value \<Rightarrow> string" where
  "to_string JSUndefined = ''undefined''"
| "to_string JSNull = ''null''"
| "to_string (JSBoolean b) = (if b then ''true'' else ''false'')"
| "to_string (JSNumber n) = (if n < 0 then ''-'' @ digits (nat (- n)) else digits (nat n))"
| "to_string (JSString s) = s"
| "to_string (JSObject r) = ''[object Object]''"

text \<open>An exception caught around the loader call: the module reads its
  \<open>code\<close> and \<open>message\<close> properties and nothing else. The thrown value is
  taken to be an object, so that reading the two properties does not itself
  throw; a property it does not have is \<open>JSUndefined\<close>.\<close>

record js_exception =
  code :: js_value
  message :: js_value

text \<open>What \<open>loady\<close> throws: its own three errors, the \<open>TypeError\<close>s, and
  whatever an external call threw, passed on as it is.\<close>

datatype error =
    TypeError string
  | ERR_BINDINGS_NOT_FOUND string "string list"
  | ERR_BINDINGS_NO_ROOT string string
  | ERR_BINDINGS_FILE_URI string string
  | Thrown js_exception

subsection \<open>The environment\<close>

record process =
  arch :: string
  platform :: string
  versions_modules :: string
  versions_node :: string
  env_NODE_BINDINGS_COMPILED_DIR :: "string option"

record node =
  extname :: "string \<Rightarrow> string"
  join :: "string list \<Rightarrow> string"
  resolve :: "string \<Rightarrow> string"
  dirname :: "string \<Rightarrow> string"
  fileURLToPath :: "(string \<Rightarrow> js_exception + string) option"
  proc :: process

record world =
  existsSync :: "string \<Rightarrow> bool"
  webpack_require_is_function :: bool
  non_webpack_require :: "string \<Rightarrow> js_exception + js_value"
  require :: "string \<Rightarrow> js_exception + js_value"

text \<open>The calls the module makes to the file system and to the loader, in
  the order it makes them.\<close>

datatype event = ExistsSync string | Load string

subsection \<open>Constants\<close>

record options =
  root :: string
  name :: string
  arch :: string
  compiled :: string
  pregyp :: string
  platform :: string
  version :: string

definition defaults :: "process \<Rightarrow> options" where
  "defaults p =
     \<lparr> root = ''/'',
       name = ''bindings.node'',
       arch = process.arch p,
       compiled = (case env_NODE_BINDINGS_COMPILED_DIR p of
                     None \<Rightarrow> ''compiled''
                   | Some d \<Rightarrow> if d = [] then ''compiled'' else d),
       pregyp = ''node-v'' @ versions_modules p @ ''-'' @ process.platform p @ ''-'' @ process.arch p,
       platform = process.platform p,
       version = versions_node p \<rparr>"

text \<open>Property lookup \<open>options[key]\<close>; \<open>None\<close> is \<open>undefined\<close> (the prototype
  chain ends at \<open>defaults\<close>, whose prototype is \<open>null\<close>).\<close>

definition options_get :: "options \<Rightarrow> string \<Rightarrow> string option" where
  "options_get opts k =
     (if k = ''root'' then Some (root opts)
      else if k = ''name'' then Some (name opts)
      else if k = ''arch'' then Some (arch opts)
      else if k = ''compiled'' then Some (compiled opts)
      else if k = ''pregyp'' then Some (pregyp opts)
      else if k = ''platform'' then Some (platform opts)
      else if k = ''version'' then Some (version opts)
      else None)"

definition paths :: "string list list" where
  "paths =
    [[''$root'', ''build'', ''$name''],
     [''$root'', ''build'', ''Debug'', ''$name''],
     [''$root'', ''build'', ''Release'', ''$name''],
     [''$root'', ''$name''],
     [''$root'', ''Debug'', ''$name''],
     [''$root'', ''Release'', ''$name''],
     [''$root'', ''MinSizeRel'', ''$name''],
     [''$root'', ''RelWithDebInfo'', ''$name''],
     [''$root'', ''out'', ''Debug'', ''$name''],
     [''$root'', ''Debug'', ''$name''],
     [''$root'', ''out'', ''Release'', ''$name''],
     [''$root'', ''Release'', ''$name''],
     [''$root'', ''build'', ''default'', ''$name''],
     [''$root'', ''$compiled'', ''$version'', ''$platform'', ''$arch'', ''$name''],
     [''$root'', ''addon-build'', ''release'', ''install-root'', ''$name''],
     [''$root'', ''addon-build'', ''debug'', ''install-root'', ''$name''],
     [''$root'', ''addon-build'', ''default'', ''install-root'', ''$name''],
     [''$root'', ''lib'', ''binding'', ''$pregyp'', ''$name'']]"

type_synonym cache = "string \<Rightarrow> js_value option"

subsection \<open>ensurePath\<close>

definition ensurePath :: "node \<Rightarrow> string \<Rightarrow> error + string" where
  "ensurePath N path =
     (if take 5 path = ''file:'' then
        (case fileURLToPath N of
           None \<Rightarrow> Inl (ERR_BINDINGS_FILE_URI ''File URLs are unsupported on this platform.'' path)
         | Some f \<Rightarrow>
             (case f path of
                Inl e \<Rightarrow> Inl (Thrown e)
              | Inr p \<Rightarrow> Inr (dirname N p)))
      else Inr path)"

subsection \<open>getRoot\<close>

definition no_root_message :: "string \<Rightarrow> string" where
  "no_root_message path =
     ''Could not find module root given file: \"'' @ path @ ''\". ''
       @ ''Do you have a `package.json` file?''"

text \<open>The \<open>for (;;)\<close> loop. It ends when a marker exists or when \<open>dirname\<close>
  returns its argument; \<open>None\<close> stands for a loop that never ends.\<close>

partial_function (option) getRoot_loop ::
  "node \<Rightarrow> world \<Rightarrow> string \<Rightarrow> string \<Rightarrow> event list \<Rightarrow> ((error + string) \<times> event list) option"
where
  "getRoot_loop N W path root0 tr =
     (if existsSync W (join N [root0, ''package.json''])
      then Some (Inr root0, tr @ [ExistsSync (join N [root0, ''package.json''])])
      else if existsSync W (join N [root0, ''node_modules''])
      then Some (Inr root0, tr @ [ExistsSync (join N [root0, ''package.json'']),
                                  ExistsSync (join N [root0, ''node_modules''])])
      else if dirname N root0 = root0
      then Some (Inl (ERR_BINDINGS_NO_ROOT (no_root_message path) path),
                 tr @ [ExistsSync (join N [root0, ''package.json'']),
                       ExistsSync (join N [root0, ''node_modules''])])
      else getRoot_loop N W path (dirname N root0)
             (tr @ [ExistsSync (join N [root0, ''package.json'']),
                    ExistsSync (join N [root0, ''node_modules''])]))"

declare getRoot_loop.simps [code]

definition getRoot :: "node \<Rightarrow> world \<Rightarrow> string \<Rightarrow> ((error + string) \<times> event list) option" where
  "getRoot N W path = getRoot_loop N W path (resolve N path) []"

subsection \<open>loady\<close>

text \<open>The classification in the \<open>catch\<close> block. The regular expression
  \<open>/not find/i\<close> matches when the message, converted to a string, contains
  the eight characters of \<open>not find\<close>, each letter in either case
  (compared by character code, \<open>A\<close> to \<open>Z\<close> being 65 to 90).\<close>

definition lower_code :: "char \<Rightarrow> nat" where
  "lower_code c =
     (let k = (of_char c :: nat) in if 65 \<le> k \<and> k \<le> 90 then k + 32 else k)"

fun not_find_test :: "string \<Rightarrow> bool" where
  "not_find_test [] = False"
| "not_find_test (c # cs) =
     (map lower_code (take 8 (c # cs)) = map of_char ''not find'' \<or> not_find_test cs)"

definition not_found :: "js_exception \<Rightarrow> bool" where
  "not_found e =
     (code e = JSString ''MODULE_NOT_FOUND''
      \<or> code e = JSString ''QUALIFIED_PATH_RESOLUTION_FAILED''
      \<or> not_find_test (to_string (message e)))"

definition loader :: "world \<Rightarrow> string \<Rightarrow> js_exception + js_value" where
  "loader W = (if webpack_require_is_function W then non_webpack_require W else require W)"

definition cache_key :: "string \<Rightarrow> string \<Rightarrow> string" where
  "cache_key name0 path = name0 @ [CHR 0x00] @ path"

text \<open>The inner loop over the parts of one template: a part that starts
  with \<open>$\<close> is looked up in \<open>options\<close>, any other part is taken as it is.\<close>

definition names_of :: "options \<Rightarrow> string list \<Rightarrow> string option list" where
  "names_of opts parts =
     map (\<lambda>part. case part of
                    [] \<Rightarrow> Some part
                  | c # rest \<Rightarrow> if c = CHR ''$'' then options_get opts rest else Some part)
         parts"

text \<open>\<open>join(...names)\<close>; \<open>path.join\<close> throws a \<open>TypeError\<close> on an argument
  that is not a string.\<close>

definition join_names :: "node \<Rightarrow> string option list \<Rightarrow> error + string" where
  "join_names N names =
     (case those names of
        None \<Rightarrow> Inl (TypeError ''The \"path\" argument must be of type string. Received undefined'')
      | Some ns \<Rightarrow> Inr (join N ns))"

fun join_with :: "string \<Rightarrow> string list \<Rightarrow> string" where
  "join_with sep [] = []"
| "join_with sep [x] = x"
| "join_with sep (x # y # ys) = x @ sep @ join_with sep (y # ys)"

definition not_found_message :: "string list \<Rightarrow> string" where
  "not_found_message tries =
     ''Could not locate the bindings file. Tried:'' @ [CHR 0x0A]
       @ join_with [CHR 0x0A] (map (\<lambda>file. '' - '' @ file) tries)"

definition not_found_error :: "string list \<Rightarrow> error" where
  "not_found_error tries = ERR_BINDINGS_NOT_FOUND (not_found_message tries) tries"

text \<open>The \<open>for (const parts of paths)\<close> loop, with \<open>tries\<close>, the cache and
  the calls made so far passed along.\<close>

fun loady_loop ::
  "node \<Rightarrow> world \<Rightarrow> options \<Rightarrow> string \<Rightarrow> string list list \<Rightarrow> string list \<Rightarrow> cache \<Rightarrow> event list
     \<Rightarrow> (error + js_value) \<times> cache \<times> event list"
where
  "loady_loop N W opts key [] tries c tr = (Inl (not_found_error tries), c, tr)"
| "loady_loop N W opts key (parts # rest) tries c tr =
     (case join_names N (names_of opts parts) of
        Inl e \<Rightarrow> (Inl e, c, tr)
      | Inr file \<Rightarrow>
          (case loader W file of
             Inl e \<Rightarrow>
               if code e = JSString ''MODULE_NOT_FOUND''
               then loady_loop N W opts key rest (tries @ [file]) c (tr @ [Load file])
               else if code e = JSString ''QUALIFIED_PATH_RESOLUTION_FAILED''
               then loady_loop N W opts key rest (tries @ [file]) c (tr @ [Load file])
               else if not_find_test (to_string (message e))
               then loady_loop N W opts key rest (tries @ [file]) c (tr @ [Load file])
               else (Inl (Thrown e), c, tr @ [Load file])
           | Inr binding \<Rightarrow> (Inr binding, c(key \<mapsto> binding), tr @ [Load file])))"

definition normalize_name :: "node \<Rightarrow> string \<Rightarrow> string" where
  "normalize_name N name0 = (if extname N name0 \<noteq> ''.node'' then name0 @ ''.node'' else name0)"

text \<open>\<open>cache[key]\<close>, which is \<open>undefined\<close> for a key the cache does not have,
  and the test \<open>if (cache[key])\<close>.\<close>

definition cache_get :: "cache \<Rightarrow> string \<Rightarrow> js_value" where
  "cache_get c key = (case c key of None \<Rightarrow> JSUndefined | Some v \<Rightarrow> v)"

definition cache_hit :: "cache \<Rightarrow> string \<Rightarrow> bool" where
  "cache_hit c key = truthy (cache_get c key)"

text \<open>\<open>loady(name, path)\<close>. The result is the value returned or the error
  thrown, the cache after the call, and the calls made to the file system
  and the loader; \<open>None\<close> when \<open>getRoot\<close> does not return.\<close>

definition loady ::
  "node \<Rightarrow> world \<Rightarrow> cache \<Rightarrow> js_value \<Rightarrow> js_value
     \<Rightarrow> ((error + js_value) \<times> cache \<times> event list) option"
where
  "loady N W c name0 path0 =
     (case name0 of
        JSString nm \<Rightarrow>
          (case path0 of
             JSString pth \<Rightarrow>
               (case ensurePath N pth of
                  Inl e \<Rightarrow> Some (Inl e, c, [])
                | Inr path \<Rightarrow>
                    (let key = cache_key (normalize_name N nm) path in
                     if cache_hit c key then Some (Inr (cache_get c key), c, [])
                     else
                       (case getRoot N W path of
                          None \<Rightarrow> None
                        | Some (Inl e, tr) \<Rightarrow> Some (Inl e, c, tr)
                        | Some (Inr r, tr) \<Rightarrow>
                            Some (loady_loop N W
                                    ((defaults (proc N))\<lparr> root := r, name := normalize_name N nm \<rparr>)
                                    key paths [] c tr))))
           | _ \<Rightarrow> Some (Inl (TypeError ''\"path\" must be a string.''), c, []))
      | _ \<Rightarrow> Some (Inl (TypeError ''\"name\" must be a string.''), c, []))"

subsection \<open>Specification-level notions\<close>

text \<open>A load attempt that the \<open>catch\<close> block answers with \<open>continue\<close>:
  the loader threw, and the exception is classified as not found.\<close>

definition skip :: "world \<Rightarrow> string \<Rightarrow> bool" where
  "skip W file = (case loader W file of Inl e \<Rightarrow> not_found e | Inr b \<Rightarrow> False)"

text \<open>The candidate list as the specification gives it (section 6), written
  out entry by entry over the fields of the configuration.\<close>

definition spec_candidates :: "node \<Rightarrow> options \<Rightarrow> string list" where
  "spec_candidates N opts =
    [join N [root opts, ''build'', name opts],
     join N [root opts, ''build'', ''Debug'', name opts],
     join N [root opts, ''build'', ''Release'', name opts],
     join N [root opts, name opts],
     join N [root opts, ''Debug'', name opts],
     join N [root opts, ''Release'', name opts],
     join N [root opts, ''MinSizeRel'', name opts],
     join N [root opts, ''RelWithDebInfo'', name opts],
     join N [root opts, ''out'', ''Debug'', name opts],
     join N [root opts, ''Debug'', name opts],
     join N [root opts, ''out'', ''Release'', name opts],
     join N [root opts, ''Release'', name opts],
     join N [root opts, ''build'', ''default'', name opts],
     join N [root opts, compiled opts, version opts, platform opts, arch opts, name opts],
     join N [root opts, ''addon-build'', ''release'', ''install-root'', name opts],
     join N [root opts, ''addon-build'', ''debug'', ''install-root'', name opts],
     join N [root opts, ''addon-build'', ''default'', ''install-root'', name opts],
     join N [root opts, ''lib'', ''binding'', pregyp opts, name opts]]"

text \<open>The configuration of one call: \<open>defaults\<close> with \<open>root\<close> and \<open>name\<close>
  set.\<close>

definition call_options :: "node \<Rightarrow> string \<Rightarrow> string \<Rightarrow> options" where
  "call_options N r nm = (defaults (proc N))\<lparr> root := r, name := nm \<rparr>"

text \<open>What a search over a candidate list \<open>cs\<close> amounts to: every candidate
  up to the first one whose load is not a classified not-found failure is
  attempted; that one decides the result, and if there is none the search is
  exhausted.\<close>

definition loop_outcome ::
  "world \<Rightarrow> string \<Rightarrow> string list \<Rightarrow> cache \<Rightarrow> event list \<Rightarrow> string list
     \<Rightarrow> (error + js_value) \<times> cache \<times> event list"
where
  "loop_outcome W key tries c tr cs =
     (case dropWhile (skip W) cs of
        [] \<Rightarrow> (Inl (not_found_error (tries @ cs)), c, tr @ map Load cs)
      | f # rest \<Rightarrow>
          (case loader W f of
             Inl e \<Rightarrow> (Inl (Thrown e), c, tr @ map Load (takeWhile (skip W) cs @ [f]))
           | Inr b \<Rightarrow> (Inr b, c(key \<mapsto> b), tr @ map Load (takeWhile (skip W) cs @ [f]))))"

text \<open>The search without the cache: locate the root, then try the candidates.\<close>

definition full_search ::
  "node \<Rightarrow> world \<Rightarrow> cache \<Rightarrow> string \<Rightarrow> string \<Rightarrow> ((error + js_value) \<times> cache \<times> event list) option"
where
  "full_search N W c nm path =
     (case getRoot N W path of
        None \<Rightarrow> None
      | Some (Inl e, tr) \<Rightarrow> Some (Inl e, c, tr)
      | Some (Inr r, tr) \<Rightarrow>
          Some (loop_outcome W (cache_key nm path) [] c tr (spec_candidates N (call_options N r nm))))"

text \<open>A call on a name that is already normalised.\<close>

definition resolve_with ::
  "node \<Rightarrow> world \<Rightarrow> cache \<Rightarrow> string \<Rightarrow> string \<Rightarrow> ((error + js_value) \<times> cache \<times> event list) option"
where
  "resolve_with N W c nm pth =
     (case ensurePath N pth of
        Inl e \<Rightarrow> Some (Inl e, c, [])
      | Inr path \<Rightarrow>
          if cache_hit c (cache_key nm path) then Some (Inr (cache_get c (cache_key nm path)), c, [])
          else full_search N W c nm path)"

text \<open>A directory holds a root marker when one of the two existence tests of
  \<open>getRoot\<close> succeeds there.\<close>

definition has_marker :: "node \<Rightarrow> world \<Rightarrow> string \<Rightarrow> bool" where
  "has_marker N W d =
     (existsSync W (join N [d, ''package.json'']) \<or> existsSync W (join N [d, ''node_modules'']))"

subsection \<open>A POSIX host\<close>

text \<open>
  A concrete environment on which the model runs: \<open>path.posix\<close> in
  functional form, a working directory, a \<open>process\<close> object, and worlds given
  by the list of existing paths and the list of loadable files.
  \<open>posix_fileURLToPath\<close> covers the URLs \<open>file:///...\<close> whose path is made of
  letters, digits, \<open>.\<close>, \<open>_\<close>, \<open>-\<close> and \<open>/\<close> without dot segments, on which
  the conversion drops the scheme and the empty host; it answers any other
  string with an error value.
\<close>

fun split_on :: "char \<Rightarrow> string \<Rightarrow> string list" where
  "split_on d [] = [[]]"
| "split_on d (c # cs) =
     (if c = d then [] # split_on d cs
      else (case split_on d cs of [] \<Rightarrow> [[c]] | s # ss \<Rightarrow> (c # s) # ss))"

fun normalize_segments :: "bool \<Rightarrow> string list \<Rightarrow> string list \<Rightarrow> string list" where
  "normalize_segments allow [] acc = rev acc"
| "normalize_segments allow (s # ss) acc =
     (if s = [] \<or> s = ''.'' then normalize_segments allow ss acc
      else if s = ''..'' then
        (case acc of
           [] \<Rightarrow> normalize_segments allow ss (if allow then [''..''] else [])
         | t # ts \<Rightarrow>
             if t = ''..'' then normalize_segments allow ss (if allow then ''..'' # acc else acc)
             else normalize_segments allow ss ts)
      else normalize_segments allow ss (s # acc))"

definition posix_normalize :: "string \<Rightarrow> string" where
  "posix_normalize path =
     (if path = [] then ''.''
      else
        (let isAbsolute = (hd path = CHR ''/'');
             trailing = (last path = CHR ''/'');
             p = join_with ''/'' (normalize_segments (\<not> isAbsolute) (split_on CHR ''/'' path) [])
         in if p = [] then (if isAbsolute then ''/'' else if trailing then ''./'' else ''.'')
            else (if isAbsolute then ''/'' else []) @ p @ (if trailing then ''/'' else [])))"

definition posix_join :: "string list \<Rightarrow> string" where
  "posix_join args =
     (let xs = filter (\<lambda>s. s \<noteq> []) args
      in if xs = [] then ''.'' else posix_normalize (join_with ''/'' xs))"

definition posix_resolve :: "string \<Rightarrow> string \<Rightarrow> string" where
  "posix_resolve cwd path =
     (let p = (if path = [] then cwd
               else if hd path = CHR ''/'' then path
               else cwd @ ''/'' @ path)
      in ''/'' @ join_with ''/'' (normalize_segments False (split_on CHR ''/'' p) []))"

definition posix_dirname :: "string \<Rightarrow> string" where
  "posix_dirname path =
     (if path = [] then ''.''
      else
        (let hasRoot = (hd path = CHR ''/'');
             r = dropWhile (\<lambda>c. c \<noteq> CHR ''/'') (dropWhile (\<lambda>c. c = CHR ''/'') (rev (tl path)))
         in if r = [] then (if hasRoot then ''/'' else ''.'')
            else if hasRoot \<and> length r = 1 then ''//''
            else take (length r) path))"

definition posix_extname :: "string \<Rightarrow> string" where
  "posix_extname path =
     (let comp = rev (takeWhile (\<lambda>c. c \<noteq> CHR ''/'') (dropWhile (\<lambda>c. c = CHR ''/'') (rev path)));
          ext = rev (takeWhile (\<lambda>c. c \<noteq> CHR ''.'') (rev comp))
      in if CHR ''.'' \<notin> set comp then []
         else if length comp = Suc (length ext) \<or> comp = ''..'' then []
         else CHR ''.'' # ext)"

definition url_path_char :: "char \<Rightarrow> bool" where
  "url_path_char c =
     (c \<in> set ''abcdefghijklmnopqrstuvwxyzABCDEFGHIJKLMNOPQRSTUVWXYZ0123456789._-/'')"

definition posix_fileURLToPath :: "string \<Rightarrow> js_exception + string" where
  "posix_fileURLToPath url =
     (if take 8 url = ''file:///'' \<and> list_all url_path_char (drop 8 url)
         \<and> ''.'' \<notin> set (split_on CHR ''/'' (drop 8 url))
         \<and> ''..'' \<notin> set (split_on CHR ''/'' (drop 8 url))
      then Inr (drop 7 url)
      else Inl \<lparr> code = JSString ''ERR_INVALID_URL'', message = JSString ''Invalid URL'' \<rparr>)"

definition posix :: node where
  "posix =
     \<lparr> extname = posix_extname,
       join = posix_join,
       resolve = posix_resolve ''/home/user'',
       dirname = posix_dirname,
       fileURLToPath = Some posix_fileURLToPath,
       proc = \<lparr> process.arch = ''x64'', process.platform = ''linux'', versions_modules = ''115'',
                versions_node = ''20.11.0'', env_NODE_BINDINGS_COMPILED_DIR = None \<rparr> \<rparr>"

definition module_not_found :: "string \<Rightarrow> js_exception" where
  "module_not_found file =
     \<lparr> code = JSString ''MODULE_NOT_FOUND'',
       message = JSString (''Cannot find module '' @ file) \<rparr>"

definition disk :: "string list \<Rightarrow> (string \<times> (js_exception + js_value)) list \<Rightarrow> world" where
  "disk entries modules =
     \<lparr> existsSync = (\<lambda>p. p \<in> set entries),
       webpack_require_is_function = False,
       non_webpack_require = (\<lambda>p. Inl (module_not_found p)),
       require = (\<lambda>p. case map_of modules p of Some r \<Rightarrow> r | None \<Rightarrow> Inl (module_not_found p)) \<rparr>"

text \<open>An exception that is not classified as not found, and the candidate
  list of the project \<open>/proj\<close> for the name \<open>foo.node\<close> on this host.\<close>

definition dlopen_failed :: js_exception where
  "dlopen_failed =
     \<lparr> code = JSString ''ERR_DLOPEN_FAILED'', message = JSString ''invalid ELF header'' \<rparr>"

definition proj_candidates :: "string list" where
  "proj_candidates =
     [''/proj/build/foo.node'', ''/proj/build/Debug/foo.node'', ''/proj/build/Release/foo.node'',
      ''/proj/foo.node'', ''/proj/Debug/foo.node'', ''/proj/Release/foo.node'',
      ''/proj/MinSizeRel/foo.node'', ''/proj/RelWithDebInfo/foo.node'',
      ''/proj/out/Debug/foo.node'', ''/proj/Debug/foo.node'', ''/proj/out/Release/foo.node'',
      ''/proj/Release/foo.node'', ''/proj/build/default/foo.node'',
      ''/proj/compiled/20.11.0/linux/x64/foo.node'',
      ''/proj/addon-build/release/install-root/foo.node'',
      ''/proj/addon-build/debug/install-root/foo.node'',
      ''/proj/addon-build/default/install-root/foo.node'',
      ''/proj/lib/binding/node-v115-linux-x64/foo.node'']"

section \<open>Properties\<close>

subsection \<open>The template table and the search loop\<close>

lemma paths_expand:
  "map (\<lambda>parts. join_names N (names_of opts parts)) paths = map Inr (spec_candidates N opts)"
  by (simp add: paths_def spec_candidates_def join_names_def names_of_def options_get_def)

lemma loop_outcome_Nil:
  "loop_outcome W key tries c tr [] = (Inl (not_found_error tries), c, tr)"
  by (simp add: loop_outcome_def)

lemma loop_outcome_skip:
  "skip W f \<Longrightarrow>
   loop_outcome W key tries c tr (f # fs) = loop_outcome W key (tries @ [f]) c (tr @ [Load f]) fs"
proof (cases "dropWhile (skip W) fs")
  case Nil
  assume "skip W f"
  then show ?thesis by (simp add: loop_outcome_def Nil)
next
  case (Cons g gs)
  assume "skip W f"
  then show ?thesis by (simp add: loop_outcome_def Cons split: sum.split)
qed

lemma loop_outcome_stop:
  "\<not> skip W f \<Longrightarrow>
   loop_outcome W key tries c tr (f # fs) =
     (case loader W f of
        Inl e \<Rightarrow> (Inl (Thrown e), c, tr @ [Load f])
      | Inr b \<Rightarrow> (Inr b, c(key \<mapsto> b), tr @ [Load f]))"
  by (simp add: loop_outcome_def split: sum.split)

lemma loady_loop_step:
  "join_names N (names_of opts parts) = Inr f \<Longrightarrow>
   loady_loop N W opts key (parts # rest) tries c tr =
     (if skip W f then loady_loop N W opts key rest (tries @ [f]) c (tr @ [Load f])
      else (case loader W f of
              Inl e \<Rightarrow> (Inl (Thrown e), c, tr @ [Load f])
            | Inr b \<Rightarrow> (Inr b, c(key \<mapsto> b), tr @ [Load f])))"
  by (auto simp: skip_def not_found_def split: sum.split)

lemma loady_loop_char:
  "map (\<lambda>parts. join_names N (names_of opts parts)) ts = map Inr cs \<Longrightarrow>
   loady_loop N W opts key ts tries c tr = loop_outcome W key tries c tr cs"
proof (induction ts arbitrary: cs tries tr)
  case Nil
  then show ?case by (simp add: loop_outcome_Nil)
next
  case (Cons parts rest)
  then obtain f fs where cs: "cs = f # fs" by (cases cs) auto
  with Cons.prems have f: "join_names N (names_of opts parts) = Inr f"
    and fs: "map (\<lambda>parts. join_names N (names_of opts parts)) rest = map Inr fs"
    by simp_all
  show ?case
    unfolding cs loady_loop_step [OF f]
    by (simp add: Cons.IH [OF fs] loop_outcome_skip loop_outcome_stop)
qed

lemma loady_resolve_with:
  "loady N W c (JSString nm) (JSString pth) = resolve_with N W c (normalize_name N nm) pth"
  by (simp add: loady_def resolve_with_def full_search_def call_options_def
        loady_loop_char [OF paths_expand] Let_def
      split: sum.split option.split prod.split)

lemma loop_outcome_events:
  "snd (snd (loop_outcome W key tries c tr cs)) =
     tr @ map Load (take (Suc (length (takeWhile (skip W) cs))) cs)"
proof (cases "dropWhile (skip W) cs")
  case Nil
  then have tw: "takeWhile (skip W) cs = cs" by simp
  show ?thesis by (simp add: loop_outcome_def Nil tw)
next
  case (Cons f rest)
  have "cs = takeWhile (skip W) cs @ f # rest"
    using takeWhile_dropWhile_id [of "skip W" cs] by (simp add: Cons)
  then have "take (Suc (length (takeWhile (skip W) cs))) cs = takeWhile (skip W) cs @ [f]"
    by (metis append.assoc append_Cons append_Nil append_eq_conv_conj length_append_singleton)
  then show ?thesis by (simp add: loop_outcome_def Cons split: sum.split)
qed

lemma loop_outcome_error_cache:
  "loop_outcome W key tries c tr cs = (Inl e, c', tr') \<Longrightarrow> c' = c"
  by (auto simp: loop_outcome_def split: list.splits sum.splits)

lemma loop_outcome_success_cache:
  "loop_outcome W key tries c tr cs = (Inr b, c', tr') \<Longrightarrow> c' = c(key \<mapsto> b)"
  by (auto simp: loop_outcome_def split: list.splits sum.splits)

lemma length_spec_candidates: "length (spec_candidates N opts) = 18"
  by (simp add: spec_candidates_def)

lemma loady_search:
  assumes "ensurePath N pth = Inr path"
    and "\<not> cache_hit c (cache_key (normalize_name N nm) path)"
    and "getRoot N W path = Some (Inr r, tr0)"
  shows "loady N W c (JSString nm) (JSString pth) =
           Some (loop_outcome W (cache_key (normalize_name N nm) path) [] c tr0
                   (spec_candidates N (call_options N r (normalize_name N nm))))"
  using assms by (simp add: loady_resolve_with resolve_with_def full_search_def)


lemma loop_outcome_exhausted:
  assumes "\<forall>f\<in>set cs. skip W f"
  shows "loop_outcome W key [] c tr cs =
           (Inl (ERR_BINDINGS_NOT_FOUND (not_found_message cs) cs), c, tr @ map Load cs)"
proof -
  from assms have dw: "dropWhile (skip W) cs = []" by simp
  show ?thesis by (simp add: loop_outcome_def not_found_error_def dw)
qed

subsection \<open>The root walk\<close>

lemma getRoot_loop_found:
  "has_marker N W ((dirname N ^^ n) r0) \<Longrightarrow>
   \<forall>k<n. \<not> has_marker N W ((dirname N ^^ k) r0) \<Longrightarrow>
   \<exists>tr'. getRoot_loop N W path r0 tr = Some (Inr ((dirname N ^^ n) r0), tr')"
proof (induction n arbitrary: r0 tr)
  case 0
  then show ?case
    by (subst getRoot_loop.simps) (auto simp: has_marker_def)
next
  case (Suc n)
  from Suc.prems(2) have no0: "\<not> has_marker N W r0" by force
  have move: "dirname N r0 \<noteq> r0"
  proof
    assume stay: "dirname N r0 = r0"
    have "(dirname N ^^ k) r0 = r0" for k
      by (induction k) (simp_all add: stay)
    with Suc.prems(1) no0 stay show False by simp
  qed
  have m: "has_marker N W ((dirname N ^^ n) (dirname N r0))"
    using Suc.prems(1) by (simp add: funpow_swap1)
  have nm: "\<forall>k<n. \<not> has_marker N W ((dirname N ^^ k) (dirname N r0))"
  proof (intro allI impI)
    fix k assume "k < n"
    then have "Suc k < Suc n" by simp
    with Suc.prems(2) have "\<not> has_marker N W ((dirname N ^^ Suc k) r0)" by blast
    then show "\<not> has_marker N W ((dirname N ^^ k) (dirname N r0))"
      by (simp add: funpow_swap1)
  qed
  from Suc.IH [OF m nm] obtain tr' where
    "getRoot_loop N W path (dirname N r0)
       (tr @ [ExistsSync (join N [r0, ''package.json'']),
              ExistsSync (join N [r0, ''node_modules''])]) =
     Some (Inr ((dirname N ^^ n) (dirname N r0)), tr')"
    by blast
  with no0 move show ?case
    by (subst getRoot_loop.simps) (simp add: has_marker_def funpow_swap1)
qed

lemma getRoot_loop_no_root:
  "(dirname N ^^ Suc n) r0 = (dirname N ^^ n) r0 \<Longrightarrow>
   \<forall>k\<le>n. \<not> has_marker N W ((dirname N ^^ k) r0) \<Longrightarrow>
   \<exists>tr'. getRoot_loop N W path r0 tr =
          Some (Inl (ERR_BINDINGS_NO_ROOT (no_root_message path) path), tr')"
proof (induction n arbitrary: r0 tr)
  case 0
  then show ?case
    by (subst getRoot_loop.simps) (simp add: has_marker_def)
next
  case (Suc n)
  from Suc.prems(2) have no0: "\<not> has_marker N W r0" by force
  show ?case
  proof (cases "dirname N r0 = r0")
    case True
    with no0 show ?thesis
      by (subst getRoot_loop.simps) (simp add: has_marker_def)
  next
    case False
    have fx: "(dirname N ^^ Suc n) (dirname N r0) = (dirname N ^^ n) (dirname N r0)"
      using Suc.prems(1) by (simp add: funpow_swap1)
    have nm: "\<forall>k\<le>n. \<not> has_marker N W ((dirname N ^^ k) (dirname N r0))"
    proof (intro allI impI)
      fix k assume "k \<le> n"
      then have "Suc k \<le> Suc n" by simp
      with Suc.prems(2) have "\<not> has_marker N W ((dirname N ^^ Suc k) r0)" by blast
      then show "\<not> has_marker N W ((dirname N ^^ k) (dirname N r0))"
        by (simp add: funpow_swap1)
    qed
    from Suc.IH [OF fx nm] obtain tr' where
      "getRoot_loop N W path (dirname N r0)
         (tr @ [ExistsSync (join N [r0, ''package.json'']),
                ExistsSync (join N [r0, ''node_modules''])]) =
       Some (Inl (ERR_BINDINGS_NO_ROOT (no_root_message path) path), tr')"
      by blast
    with no0 False show ?thesis
      by (subst getRoot_loop.simps) (simp add: has_marker_def)
  qed
qed

subsection \<open>Runs on the POSIX host\<close>

lemmas posix_simps =
  posix_def posix_join_def posix_normalize_def posix_dirname_def posix_resolve_def
  posix_extname_def posix_fileURLToPath_def url_path_char_def

lemma getRoot_proj_lib:
  "getRoot posix (disk [''/proj/package.json''] ms) ''/proj/lib'' =
     Some (Inr ''/proj'',
           [ExistsSync ''/proj/lib/package.json'', ExistsSync ''/proj/lib/node_modules'',
            ExistsSync ''/proj/package.json''])"
  by (simp add: getRoot_def getRoot_loop.simps posix_simps disk_def)

lemma cands_proj:
  "spec_candidates posix (call_options posix ''/proj'' ''foo.node'') =
  [''/proj/build/foo.node'', ''/proj/build/Debug/foo.node'', ''/proj/build/Release/foo.node'',
  ''/proj/foo.node'', ''/proj/Debug/foo.node'', ''/proj/Release/foo.node'',
  ''/proj/MinSizeRel/foo.node'', ''/proj/RelWithDebInfo/foo.node'',
  ''/proj/out/Debug/foo.node'', ''/proj/Debug/foo.node'', ''/proj/out/Release/foo.node'',
  ''/proj/Release/foo.node'', ''/proj/build/default/foo.node'',
  ''/proj/compiled/20.11.0/linux/x64/foo.node'',
  ''/proj/addon-build/release/install-root/foo.node'',
  ''/proj/addon-build/debug/install-root/foo.node'',
  ''/proj/addon-build/default/install-root/foo.node'',
  ''/proj/lib/binding/node-v115-linux-x64/foo.node'']"
  by (simp add: spec_candidates_def call_options_def defaults_def posix_simps)

lemma ensurePath_plain: "take 5 pth \<noteq> ''file:'' \<Longrightarrow> ensurePath N pth = Inr pth"
  by (simp add: ensurePath_def)

lemma cache_miss_empty: "\<not> cache_hit Map.empty k"
  by (simp add: cache_hit_def cache_get_def)

lemma normalize_foo: "normalize_name posix ''foo'' = ''foo.node''"
  by (simp add: normalize_name_def posix_simps)

lemma skip_disk:
  "skip (disk es ms) f =
     (case map_of ms f of None \<Rightarrow> True | Some (Inl e) \<Rightarrow> not_found e | Some (Inr b) \<Rightarrow> False)"
  by (simp add: skip_def loader_def disk_def module_not_found_def not_found_def
      split: option.split sum.split)

subsection \<open>The cache\<close>

lemma resolve_with_error_cache:
  "resolve_with N W c nm pth = Some (Inl e, c', tr) \<Longrightarrow>
   c' = c \<and> (\<forall>path. ensurePath N pth = Inr path \<longrightarrow> \<not> cache_hit c (cache_key nm path))"
  by (auto simp: resolve_with_def full_search_def
      split: sum.splits if_splits option.splits prod.splits
      dest: loop_outcome_error_cache)

lemma loady_error_cache:
  "loady N W c n p = Some (Inl e, c', tr) \<Longrightarrow> c' = c"
proof (cases n)
  case (JSString nm)
  assume run: "loady N W c n p = Some (Inl e, c', tr)"
  show ?thesis
  proof (cases p)
    case (JSString pth)
    with run \<open>n = JSString nm\<close> show ?thesis
      by (simp add: loady_resolve_with resolve_with_error_cache)
  qed (use run \<open>n = JSString nm\<close> in \<open>simp_all add: loady_def\<close>)
qed (simp_all add: loady_def)

lemma resolve_with_success:
  "resolve_with N W c nm pth = Some (Inr b, c', tr) \<Longrightarrow>
   \<exists>path. ensurePath N pth = Inr path \<and> c' (cache_key nm path) = Some b"
  by (auto simp: resolve_with_def full_search_def cache_hit_def cache_get_def
      split: sum.splits if_splits option.splits prod.splits
      dest: loop_outcome_success_cache)

lemma loady_success:
  assumes "loady N W c n p = Some (Inr b, c', tr)"
  shows "\<exists>nm pth path. n = JSString nm \<and> p = JSString pth \<and> ensurePath N pth = Inr path
           \<and> c' (cache_key (normalize_name N nm) path) = Some b"
proof (cases n)
  case (JSString nm)
  show ?thesis
  proof (cases p)
    case (JSString pth)
    with assms \<open>n = JSString nm\<close> show ?thesis
      by (simp add: loady_resolve_with resolve_with_success)
  qed (use assms \<open>n = JSString nm\<close> in \<open>simp_all add: loady_def\<close>)
qed (use assms in \<open>simp_all add: loady_def\<close>)

lemma loady_cached:
  "ensurePath N pth = Inr path \<Longrightarrow> c (cache_key (normalize_name N nm) path) = Some b \<Longrightarrow>
   truthy b \<Longrightarrow> loady N W c (JSString nm) (JSString pth) = Some (Inr b, c, [])"
  by (simp add: loady_resolve_with resolve_with_def cache_hit_def cache_get_def)

subsection \<open>The cache key\<close>

lemma takeWhile_separator:
  "x \<notin> set a \<Longrightarrow> takeWhile (\<lambda>c. c \<noteq> x) (a @ x # u) = a"
  by (induction a) auto

lemma split_at_separator:
  assumes "x \<notin> set a" and "x \<notin> set b" and "a @ x # u = b @ x # v"
  shows "a = b \<and> u = v"
proof -
  have "takeWhile (\<lambda>c. c \<noteq> x) (a @ x # u) = a" "takeWhile (\<lambda>c. c \<noteq> x) (b @ x # v) = b"
    using assms(1,2) by (simp_all add: takeWhile_separator)
  with assms(3) have "a = b" by simp
  with assms(3) show ?thesis by simp
qed

subsection \<open>More runs on the POSIX host\<close>

lemma dlopen_failed_fatal: "\<not> not_found dlopen_failed"
  by (simp add: not_found_def dlopen_failed_def lower_code_def)

lemma run_proj_lib:
  "\<not> cache_hit c (cache_key ''foo.node'' ''/proj/lib'') \<Longrightarrow>
   loady posix (disk [''/proj/package.json''] ms) c (JSString ''foo'') (JSString ''/proj/lib'') =
     Some (loop_outcome (disk [''/proj/package.json''] ms) (cache_key ''foo.node'' ''/proj/lib'') [] c
             [ExistsSync ''/proj/lib/package.json'', ExistsSync ''/proj/lib/node_modules'',
              ExistsSync ''/proj/package.json'']
             proj_candidates)"
  using loady_search [of posix "''/proj/lib''" "''/proj/lib''" c "''foo''"
      "disk [''/proj/package.json''] ms" "''/proj''", OF _ _ getRoot_proj_lib]
  by (simp add: ensurePath_plain normalize_foo cands_proj proj_candidates_def)

lemma loader_disk:
  "loader (disk es ms) f = (case map_of ms f of None \<Rightarrow> Inl (module_not_found f) | Some r \<Rightarrow> r)"
  by (simp add: loader_def disk_def)

lemma run_broken:
  "loady posix (disk [''/proj/package.json''] [(''/proj/build/Release/foo.node'', Inl dlopen_failed)])
     Map.empty (JSString ''foo'') (JSString ''/proj/lib'') =
   Some (Inl (Thrown dlopen_failed), Map.empty,
         [ExistsSync ''/proj/lib/package.json'', ExistsSync ''/proj/lib/node_modules'',
          ExistsSync ''/proj/package.json'', Load ''/proj/build/foo.node'',
          Load ''/proj/build/Debug/foo.node'', Load ''/proj/build/Release/foo.node''])"
  by (simp add: run_proj_lib [OF cache_miss_empty] loop_outcome_def proj_candidates_def
      skip_disk loader_disk dlopen_failed_fatal)

lemma run_release:
  "loady posix (disk [''/proj/package.json''] [(''/proj/build/Release/foo.node'', Inr v)])
     Map.empty (JSString ''foo'') (JSString ''/proj/lib'') =
   Some (Inr v, [cache_key ''foo.node'' ''/proj/lib'' \<mapsto> v],
         [ExistsSync ''/proj/lib/package.json'', ExistsSync ''/proj/lib/node_modules'',
          ExistsSync ''/proj/package.json'', Load ''/proj/build/foo.node'',
          Load ''/proj/build/Debug/foo.node'', Load ''/proj/build/Release/foo.node''])"
  by (simp add: run_proj_lib [OF cache_miss_empty] loop_outcome_def proj_candidates_def
      skip_disk loader_disk)

lemma getRoot_nowhere:
  "getRoot posix (disk [] ms) ''/proj/lib'' =
     Some (Inl (ERR_BINDINGS_NO_ROOT (no_root_message ''/proj/lib'') ''/proj/lib''),
           [ExistsSync ''/proj/lib/package.json'', ExistsSync ''/proj/lib/node_modules'',
            ExistsSync ''/proj/package.json'', ExistsSync ''/proj/node_modules'',
            ExistsSync ''/package.json'', ExistsSync ''/node_modules''])"
  by (simp add: getRoot_def getRoot_loop.simps posix_simps disk_def)

lemma has_marker_disk:
  "has_marker posix (disk es ms) d =
     (posix_join [d, ''package.json''] \<in> set es \<or> posix_join [d, ''node_modules''] \<in> set es)"
  by (simp add: has_marker_def disk_def posix_def)

lemma dirname_chain_abc:
  "resolve posix ''/a/b/c'' = ''/a/b/c''" "dirname posix ''/a/b/c'' = ''/a/b''"
  "dirname posix ''/a/b'' = ''/a''" "dirname posix ''/a'' = ''/''" "dirname posix ''/'' = ''/''"
  by (simp_all add: posix_simps)

lemma ensurePath_index_js: "ensurePath posix ''file:///proj/lib/index.js'' = Inr ''/proj/lib''"
  by (simp add: ensurePath_def posix_simps)

lemma dirname_chain_proj_lib:
  "resolve posix ''/proj/lib'' = ''/proj/lib''" "dirname posix ''/proj/lib'' = ''/proj''"
  "dirname posix ''/proj'' = ''/''" "dirname posix ''/'' = ''/''"
  by (simp_all add: posix_simps)

lemma run_uri:
  "loady posix W c (JSString ''foo'') (JSString ''file:///proj/lib/index.js'') =
   loady posix W c (JSString ''foo'') (JSString ''/proj/lib'')"
  by (simp add: loady_resolve_with resolve_with_def ensurePath_index_js ensurePath_plain)

lemma run_nowhere_cached_falsy:
  "\<not> truthy v \<Longrightarrow>
   loady posix (disk [] []) [cache_key ''foo.node'' ''/proj/lib'' \<mapsto> v]
         (JSString ''foo'') (JSString ''/proj/lib'') =
       Some (Inl (ERR_BINDINGS_NO_ROOT (no_root_message ''/proj/lib'') ''/proj/lib''),
             [cache_key ''foo.node'' ''/proj/lib'' \<mapsto> v],
             [ExistsSync ''/proj/lib/package.json'', ExistsSync ''/proj/lib/node_modules'',
              ExistsSync ''/proj/package.json'', ExistsSync ''/proj/node_modules'',
              ExistsSync ''/package.json'', ExistsSync ''/node_modules''])"
  by (simp add: loady_resolve_with resolve_with_def full_search_def
        ensurePath_plain normalize_foo cache_hit_def cache_get_def getRoot_nowhere)

section \<open>The claims\<close>

text \<open>
  C1. For valid arguments (two strings, the origin converted to \<open>path\<close>) on
  which the cache has no truthy entry and \<open>getRoot\<close> returns \<open>r\<close>: the
  expansion of the table \<open>paths\<close> is the list of section 6 of the
  specification, of length 18, with entry 10 equal to entry 5 and entry 12
  equal to entry 6; and the loader is called on the candidates in that order,
  on every candidate up to and including the first one whose load is not a
  classified not-found failure, and on no other.
\<close>

theorem candidates_attempted_in_template_order:
  fixes N :: node and r nm :: string and cs :: "string list"
  defines "cs \<equiv> spec_candidates N (call_options N r (normalize_name N nm))"
  assumes "ensurePath N pth = Inr path"
    and "\<not> cache_hit c (cache_key (normalize_name N nm) path)"
    and "getRoot N W path = Some (Inr r, tr0)"
  shows "map (\<lambda>parts. join_names N (names_of (call_options N r (normalize_name N nm)) parts)) paths
           = map Inr cs
       \<and> length cs = 18 \<and> cs ! 9 = cs ! 4 \<and> cs ! 11 = cs ! 5
       \<and> map_option (snd \<circ> snd) (loady N W c (JSString nm) (JSString pth)) =
           Some (tr0 @ map Load (take (Suc (length (takeWhile (skip W) cs))) cs))"
proof -
  have "cs ! 9 = cs ! 4 \<and> cs ! 11 = cs ! 5"
    by (simp add: cs_def spec_candidates_def)
  moreover have "map_option (snd \<circ> snd) (loady N W c (JSString nm) (JSString pth)) =
           Some (tr0 @ map Load (take (Suc (length (takeWhile (skip W) cs))) cs))"
    by (simp add: loady_search [OF assms(2-4)] loop_outcome_events cs_def)
  ultimately show ?thesis
    by (simp add: cs_def paths_expand length_spec_candidates)
qed

theorem candidates_attempted_in_template_order_witness:
  "ensurePath posix ''/proj/lib'' = Inr ''/proj/lib''
   \<and> \<not> cache_hit Map.empty (cache_key (normalize_name posix ''foo'') ''/proj/lib'')
   \<and> getRoot posix (disk [''/proj/package.json'']
                      [(''/proj/build/Release/foo.node'', Inr (JSObject 1))]) ''/proj/lib'' =
       Some (Inr ''/proj'',
             [ExistsSync ''/proj/lib/package.json'', ExistsSync ''/proj/lib/node_modules'',
              ExistsSync ''/proj/package.json''])
   \<and> map_option (snd \<circ> snd)
         (loady posix (disk [''/proj/package.json'']
                        [(''/proj/build/Release/foo.node'', Inr (JSObject 1))])
            Map.empty (JSString ''foo'') (JSString ''/proj/lib'')) =
       Some [ExistsSync ''/proj/lib/package.json'', ExistsSync ''/proj/lib/node_modules'',
             ExistsSync ''/proj/package.json'', Load ''/proj/build/foo.node'',
             Load ''/proj/build/Debug/foo.node'', Load ''/proj/build/Release/foo.node'']"
proof -
  have h1: "ensurePath posix ''/proj/lib'' = Inr ''/proj/lib''"
    by (simp add: ensurePath_plain)
  have h2: "\<not> cache_hit Map.empty (cache_key (normalize_name posix ''foo'') ''/proj/lib'')"
    by (rule cache_miss_empty)
  note h3 = getRoot_proj_lib [of "[(''/proj/build/Release/foo.node'', Inr (JSObject 1))]"]
  show ?thesis
    using candidates_attempted_in_template_order [OF h1 h2 h3] h1 h2 h3
    by (simp add: normalize_foo cands_proj skip_disk)
qed



text \<open>
  C3. Exhaustion. When every candidate is answered with a classified
  not-found failure, the call throws the error with code
  \<open>ERR_BINDINGS_NOT_FOUND\<close> whose \<open>tries\<close> is the whole candidate list, 18
  paths in template order; every candidate has been attempted, in order.
\<close>

theorem exhaustion_reports_all_candidates:
  fixes N :: node and r nm :: string and cs :: "string list"
  defines "cs \<equiv> spec_candidates N (call_options N r (normalize_name N nm))"
  assumes "ensurePath N pth = Inr path"
    and "\<not> cache_hit c (cache_key (normalize_name N nm) path)"
    and "getRoot N W path = Some (Inr r, tr0)"
    and "\<forall>f\<in>set cs. skip W f"
  shows "length cs = 18
       \<and> loady N W c (JSString nm) (JSString pth) =
           Some (Inl (ERR_BINDINGS_NOT_FOUND (not_found_message cs) cs), c, tr0 @ map Load cs)"
  unfolding loady_search [OF assms(2-4)] cs_def [symmetric]
  by (simp add: loop_outcome_exhausted [OF assms(5)]) (simp add: cs_def length_spec_candidates)

theorem exhaustion_reports_all_candidates_witness:
  "ensurePath posix ''/proj/lib'' = Inr ''/proj/lib''
   \<and> \<not> cache_hit Map.empty (cache_key (normalize_name posix ''foo'') ''/proj/lib'')
   \<and> (let cs =
          [''/proj/build/foo.node'', ''/proj/build/Debug/foo.node'',
           ''/proj/build/Release/foo.node'', ''/proj/foo.node'', ''/proj/Debug/foo.node'',
           ''/proj/Release/foo.node'', ''/proj/MinSizeRel/foo.node'',
           ''/proj/RelWithDebInfo/foo.node'', ''/proj/out/Debug/foo.node'',
           ''/proj/Debug/foo.node'', ''/proj/out/Release/foo.node'',
           ''/proj/Release/foo.node'', ''/proj/build/default/foo.node'',
           ''/proj/compiled/20.11.0/linux/x64/foo.node'',
           ''/proj/addon-build/release/install-root/foo.node'',
           ''/proj/addon-build/debug/install-root/foo.node'',
           ''/proj/addon-build/default/install-root/foo.node'',
           ''/proj/lib/binding/node-v115-linux-x64/foo.node'']
        in length cs = 18
         \<and> loady posix (disk [''/proj/package.json''] [])
             Map.empty (JSString ''foo'') (JSString ''/proj/lib'') =
           Some (Inl (ERR_BINDINGS_NOT_FOUND (not_found_message cs) cs), Map.empty,
                 [ExistsSync ''/proj/lib/package.json'', ExistsSync ''/proj/lib/node_modules'',
                  ExistsSync ''/proj/package.json''] @ map Load cs))"
proof -
  let ?cs = "spec_candidates posix (call_options posix ''/proj'' (normalize_name posix ''foo''))"
  have h1: "ensurePath posix ''/proj/lib'' = Inr ''/proj/lib''"
    by (simp add: ensurePath_plain)
  have h2: "\<not> cache_hit Map.empty (cache_key (normalize_name posix ''foo'') ''/proj/lib'')"
    by (rule cache_miss_empty)
  note h3 = getRoot_proj_lib [of "[]"]
  have h4: "\<forall>f\<in>set ?cs. skip (disk [''/proj/package.json''] []) f"
    by (simp add: skip_disk)
  show ?thesis
    using exhaustion_reports_all_candidates [OF h1 h2 h3 h4] h1 h2
    unfolding normalize_foo cands_proj Let_def by simp
qed

text \<open>
  C4. A call that ends in an error, whichever it is, leaves the cache as it
  was. A later call with the same arguments therefore behaves as on the
  original cache, in any world; and when the arguments are strings and the
  origin converts to \<open>path\<close>, that later call is a full search: the root walk
  followed by the candidates.
\<close>

theorem errors_leave_cache_unchanged:
  assumes "loady N W c n p = Some (Inl e, c', tr)"
  shows "c' = c
       \<and> (\<forall>W'. loady N W' c' n p = loady N W' c n p)
       \<and> (\<forall>nm pth path W'. n = JSString nm \<longrightarrow> p = JSString pth \<longrightarrow> ensurePath N pth = Inr path
            \<longrightarrow> loady N W' c' n p = full_search N W' c (normalize_name N nm) path)"
proof -
  have same: "c' = c" using assms by (rule loady_error_cache)
  have "loady N W' c n p = full_search N W' c (normalize_name N nm) path"
    if "n = JSString nm" "p = JSString pth" "ensurePath N pth = Inr path" for nm pth path W'
  proof -
    from assms that have "resolve_with N W c (normalize_name N nm) pth = Some (Inl e, c', tr)"
      by (simp add: loady_resolve_with)
    with that(3) have "\<not> cache_hit c (cache_key (normalize_name N nm) path)"
      by (blast dest: resolve_with_error_cache)
    with that show ?thesis
      by (simp add: loady_resolve_with resolve_with_def)
  qed
  with same show ?thesis by blast
qed

theorem errors_leave_cache_unchanged_witness:
  "loady posix (disk [''/proj/package.json''] [(''/proj/build/Release/foo.node'', Inl dlopen_failed)])
     Map.empty (JSString ''foo'') (JSString ''/proj/lib'') =
   Some (Inl (Thrown dlopen_failed), Map.empty,
         [ExistsSync ''/proj/lib/package.json'', ExistsSync ''/proj/lib/node_modules'',
          ExistsSync ''/proj/package.json'', Load ''/proj/build/foo.node'',
          Load ''/proj/build/Debug/foo.node'', Load ''/proj/build/Release/foo.node''])
   \<and> (\<forall>W'. loady posix W' Map.empty (JSString ''foo'') (JSString ''/proj/lib'') =
             full_search posix W' Map.empty ''foo.node'' ''/proj/lib'')"
  using errors_leave_cache_unchanged [OF run_broken] run_broken
  by (simp add: ensurePath_plain normalize_foo)




text \<open>
  C6. The root locator returns the nearest directory with a marker. The
  chain of an origin is \<open>resolve(path)\<close>, \<open>dirname\<close> of it, and so on. If some
  directory of the chain holds a marker, \<open>getRoot\<close> returns, and returns the
  first directory of the chain that holds one (the start itself when it
  does). A marker is an entry named \<open>package.json\<close> or \<open>node_modules\<close> that
  \<open>existsSync\<close> reports.
\<close>

theorem getRoot_nearest_marker:
  assumes "has_marker N W ((dirname N ^^ m) (resolve N path))"
  shows "\<exists>n\<le>m. has_marker N W ((dirname N ^^ n) (resolve N path))
           \<and> (\<forall>k<n. \<not> has_marker N W ((dirname N ^^ k) (resolve N path)))
           \<and> map_option fst (getRoot N W path) = Some (Inr ((dirname N ^^ n) (resolve N path)))"
proof -
  define n where "n = (LEAST n. has_marker N W ((dirname N ^^ n) (resolve N path)))"
  have here: "has_marker N W ((dirname N ^^ n) (resolve N path))"
    unfolding n_def using assms by (rule LeastI)
  have le: "n \<le> m"
    unfolding n_def using assms by (rule Least_le)
  have before: "\<forall>k<n. \<not> has_marker N W ((dirname N ^^ k) (resolve N path))"
    unfolding n_def using not_less_Least by blast
  from getRoot_loop_found [OF here before, of path "[]"]
  have "map_option fst (getRoot N W path) = Some (Inr ((dirname N ^^ n) (resolve N path)))"
    by (auto simp: getRoot_def)
  with here le before show ?thesis by blast
qed

theorem getRoot_nearest_marker_witness:
  "has_marker posix (disk [''/a/node_modules''] []) ''/a''
   \<and> \<not> has_marker posix (disk [''/a/node_modules''] []) ''/a/b/c''
   \<and> \<not> has_marker posix (disk [''/a/node_modules''] []) ''/a/b''
   \<and> \<not> has_marker posix (disk [''/a/node_modules''] []) ''/''
   \<and> map_option fst (getRoot posix (disk [''/a/node_modules''] []) ''/a/b/c'') = Some (Inr ''/a'')"
proof -
  let ?W = "disk [''/a/node_modules''] []"
  let ?d = "\<lambda>k. (dirname posix ^^ k) (resolve posix ''/a/b/c'')"
  have chain: "?d 0 = ''/a/b/c''" "?d 1 = ''/a/b''" "?d 2 = ''/a''" "?d 3 = ''/''"
    by (simp_all add: eval_nat_numeral dirname_chain_abc)
  have m: "has_marker posix ?W ''/a''"
    and n0: "\<not> has_marker posix ?W ''/a/b/c''"
    and n1: "\<not> has_marker posix ?W ''/a/b''"
    and n3: "\<not> has_marker posix ?W ''/''"
    by (simp_all add: has_marker_disk posix_join_def posix_normalize_def)
  have h: "has_marker posix ?W (?d 2)"
    by (simp only: chain m)
  from getRoot_nearest_marker [OF h] obtain n where
    n: "n \<le> 2" "has_marker posix ?W (?d n)"
       "map_option fst (getRoot posix ?W ''/a/b/c'') = Some (Inr (?d n))"
    by blast
  from n(1) have "n = 0 \<or> n = 1 \<or> n = 2" by auto
  with n(2) n0 n1 have "n = 2"
    using chain(1,2) by auto
  with n(3) have "map_option fst (getRoot posix ?W ''/a/b/c'') = Some (Inr ''/a'')"
    by (simp only: chain)
  with m n0 n1 n3 show ?thesis by blast
qed

text \<open>
  C7, amended. When the cache has no truthy entry for the key, the chain of
  directories reaches a fixed point of \<open>dirname\<close> and no directory up to it
  holds a marker, the call throws the error with code \<open>ERR_BINDINGS_NO_ROOT\<close>
  carrying the origin path after file-URI conversion, and leaves the cache
  unchanged. For an origin that does not start with \<open>file:\<close> this is the
  origin as the caller supplied it.
\<close>

theorem no_root_error_carries_converted_path:
  assumes "ensurePath N pth = Inr path"
    and "\<not> cache_hit c (cache_key (normalize_name N nm) path)"
    and "(dirname N ^^ Suc n) (resolve N path) = (dirname N ^^ n) (resolve N path)"
    and "\<forall>k\<le>n. \<not> has_marker N W ((dirname N ^^ k) (resolve N path))"
  shows "map_option (\<lambda>(res, c', tr). (res, c')) (loady N W c (JSString nm) (JSString pth)) =
           Some (Inl (ERR_BINDINGS_NO_ROOT (no_root_message path) path), c)
       \<and> (take 5 pth \<noteq> ''file:'' \<longrightarrow> path = pth)"
proof -
  from getRoot_loop_no_root [OF assms(3,4), of path "[]"] obtain tr where
    "getRoot N W path = Some (Inl (ERR_BINDINGS_NO_ROOT (no_root_message path) path), tr)"
    by (auto simp: getRoot_def)
  with assms(1,2) show ?thesis
    by (auto simp: loady_resolve_with resolve_with_def full_search_def ensurePath_def)
qed

theorem no_root_error_carries_converted_path_witness:
  "ensurePath posix ''file:///proj/lib/index.js'' = Inr ''/proj/lib''
   \<and> \<not> cache_hit Map.empty (cache_key (normalize_name posix ''foo'') ''/proj/lib'')
   \<and> map_option (\<lambda>(res, c', tr). (res, c'))
         (loady posix (disk [] []) Map.empty (JSString ''foo'') (JSString ''file:///proj/lib/index.js'')) =
       Some (Inl (ERR_BINDINGS_NO_ROOT (no_root_message ''/proj/lib'') ''/proj/lib''), Map.empty)"
proof -
  let ?W = "disk [] []"
  have h2: "\<not> cache_hit Map.empty (cache_key (normalize_name posix ''foo'') ''/proj/lib'')"
    by (rule cache_miss_empty)
  have h3: "(dirname posix ^^ Suc 2) (resolve posix ''/proj/lib'') =
            (dirname posix ^^ 2) (resolve posix ''/proj/lib'')"
    by (simp add: numeral_2_eq_2 dirname_chain_proj_lib)
  have h4: "\<forall>k\<le>2. \<not> has_marker posix ?W ((dirname posix ^^ k) (resolve posix ''/proj/lib''))"
    by (simp add: has_marker_disk)
  show ?thesis
    using no_root_error_carries_converted_path [OF ensurePath_index_js h2 h3 h4]
      ensurePath_index_js h2
    by simp
qed

text \<open>
  C7 as stated fails for a \<open>file:\<close> URI origin: \<open>loady\<close> overwrites \<open>path\<close>
  with the result of \<open>ensurePath\<close> before it calls \<open>getRoot\<close>, so the error
  carries the converted directory, not the URI the caller supplied.
\<close>

theorem no_root_error_not_original_uri:
  "loady posix (disk [] []) Map.empty (JSString ''foo'') (JSString ''file:///proj/lib/index.js'') =
     Some (Inl (ERR_BINDINGS_NO_ROOT (no_root_message ''/proj/lib'') ''/proj/lib''), Map.empty,
           [ExistsSync ''/proj/lib/package.json'', ExistsSync ''/proj/lib/node_modules'',
            ExistsSync ''/proj/package.json'', ExistsSync ''/proj/node_modules'',
            ExistsSync ''/package.json'', ExistsSync ''/node_modules''])
   \<and> ''/proj/lib'' \<noteq> ''file:///proj/lib/index.js''"
  by (simp add: loady_resolve_with resolve_with_def full_search_def ensurePath_index_js
      cache_miss_empty getRoot_nowhere)

text \<open>
  C8, amended. The cache key is the name, a NUL character and the path. Two
  pairs (name, path) have the same key exactly when they are equal, provided
  neither name contains a NUL character, or neither path does.
\<close>

theorem cache_key_injective_without_nul:
  assumes "(CHR 0x00 \<notin> set n1 \<and> CHR 0x00 \<notin> set n2) \<or> (CHR 0x00 \<notin> set p1 \<and> CHR 0x00 \<notin> set p2)"
  shows "(cache_key n1 p1 = cache_key n2 p2) = (n1 = n2 \<and> p1 = p2)"
proof
  assume eq: "cache_key n1 p1 = cache_key n2 p2"
  from assms show "n1 = n2 \<and> p1 = p2"
  proof
    assume "CHR 0x00 \<notin> set n1 \<and> CHR 0x00 \<notin> set n2"
    with eq show ?thesis
      using split_at_separator [of "CHR 0x00" n1 n2 p1 p2] by (simp add: cache_key_def)
  next
    assume nul: "CHR 0x00 \<notin> set p1 \<and> CHR 0x00 \<notin> set p2"
    from eq have "rev (n1 @ CHR 0x00 # p1) = rev (n2 @ CHR 0x00 # p2)"
      by (simp add: cache_key_def)
    then have "rev p1 @ CHR 0x00 # rev n1 = rev p2 @ CHR 0x00 # rev n2" by simp
    with nul have "rev p1 = rev p2 \<and> rev n1 = rev n2"
      using split_at_separator [of "CHR 0x00" "rev p1" "rev p2" "rev n1" "rev n2"] by simp
    then show ?thesis by simp
  qed
qed simp

theorem cache_key_injective_without_nul_witness:
  "CHR 0x00 \<notin> set ''foo.node'' \<and> CHR 0x00 \<notin> set ''bar.node''
   \<and> cache_key ''foo.node'' ''/proj'' \<noteq> cache_key ''bar.node'' ''/proj''
   \<and> cache_key ''foo.node'' ''/proj'' = ''foo.node'' @ [CHR 0x00] @ ''/proj''"
proof -
  have h: "(CHR 0x00 \<notin> set ''foo.node'' \<and> CHR 0x00 \<notin> set ''bar.node'')
         \<or> (CHR 0x00 \<notin> set ''/proj'' \<and> CHR 0x00 \<notin> set ''/proj'')"
    by simp
  show ?thesis
    using cache_key_injective_without_nul [OF h] by (simp add: cache_key_def)
qed

text \<open>
  C8 as stated fails when the NUL separator occurs in the inputs: two
  different pairs, both with names that normalisation leaves unchanged, have
  the same key.
\<close>

theorem cache_key_collision:
  "cache_key ''a.node'' (''b.node'' @ [CHR 0x00] @ ''c'')
     = cache_key (''a.node'' @ [CHR 0x00] @ ''b.node'') ''c''
   \<and> (''a.node'', ''b.node'' @ [CHR 0x00] @ ''c'') \<noteq> (''a.node'' @ [CHR 0x00] @ ''b.node'', ''c'')
   \<and> normalize_name posix ''a.node'' = ''a.node''
   \<and> normalize_name posix (''a.node'' @ [CHR 0x00] @ ''b.node'') = ''a.node'' @ [CHR 0x00] @ ''b.node''"
  by (simp add: cache_key_def normalize_name_def posix_simps)

text \<open>
  C9. Given of \<open>extname\<close> only that it answers \<open>foo\<close> with something other
  than \<open>.node\<close> and \<open>foo.node\<close> with \<open>.node\<close>: a call on any name without the
  extension is the call on the name with \<open>.node\<close> appended (so every
  candidate is built from the extended name); \<open>foo\<close> and \<open>foo.node\<close> have the
  same normal form and the same candidate list for every root; and the two
  calls agree on every world, cache and origin.
\<close>

theorem name_normalized_before_candidates:
  assumes "extname N ''foo'' \<noteq> ''.node''" and "extname N ''foo.node'' = ''.node''"
  shows "(\<forall>nm W c pth. extname N nm \<noteq> ''.node'' \<longrightarrow>
            loady N W c (JSString nm) (JSString pth) = resolve_with N W c (nm @ ''.node'') pth)
       \<and> normalize_name N ''foo'' = ''foo.node'' \<and> normalize_name N ''foo.node'' = ''foo.node''
       \<and> (\<forall>r. spec_candidates N (call_options N r (normalize_name N ''foo''))
              = spec_candidates N (call_options N r (normalize_name N ''foo.node'')))
       \<and> (\<forall>W c p. loady N W c (JSString ''foo'') p = loady N W c (JSString ''foo.node'') p)"
proof -
  have a: "normalize_name N ''foo'' = ''foo.node''" "normalize_name N ''foo.node'' = ''foo.node''"
    using assms by (simp_all add: normalize_name_def)
  have "loady N W c (JSString ''foo'') p = loady N W c (JSString ''foo.node'') p" for W c p
  proof (cases p)
    case (JSString pth)
    then show ?thesis by (simp add: loady_resolve_with a)
  qed (simp_all add: loady_def)
  with a show ?thesis
    by (simp add: loady_resolve_with normalize_name_def)
qed

theorem name_normalized_before_candidates_witness:
  "extname posix ''foo'' \<noteq> ''.node'' \<and> extname posix ''foo.node'' = ''.node''
   \<and> spec_candidates posix (call_options posix ''/proj'' (normalize_name posix ''foo''))
       = proj_candidates
   \<and> spec_candidates posix (call_options posix ''/proj'' (normalize_name posix ''foo.node''))
       = proj_candidates
   \<and> (\<forall>W c p. loady posix W c (JSString ''foo'') p = loady posix W c (JSString ''foo.node'') p)"
proof -
  have h1: "extname posix ''foo'' \<noteq> ''.node''" and h2: "extname posix ''foo.node'' = ''.node''"
    by (simp_all add: posix_simps)
  show ?thesis
    using name_normalized_before_candidates [OF h1 h2] h1 h2
    by (simp add: cands_proj proj_candidates_def)
qed

text \<open>
  C10, amended. For a \<open>file:\<close> URI that \<open>fileURLToPath\<close> converts to \<open>fp\<close>, with
  \<open>dirname fp\<close> a plain path: the URI and \<open>dirname fp\<close> convert to the same
  path, hence give the same cache key, and the two calls agree on every
  world and cache. A success under one with a truthy artifact is returned
  from the cache for the other, with no call to the file system or loader.
\<close>

theorem uri_and_directory_share_cache_key:
  assumes "take 5 uri = ''file:''" and "fileURLToPath N = Some f" and "f uri = Inr fp"
    and "take 5 (dirname N fp) \<noteq> ''file:''"
  shows "ensurePath N uri = Inr (dirname N fp) \<and> ensurePath N (dirname N fp) = Inr (dirname N fp)
       \<and> (\<forall>W c. loady N W c (JSString nm) (JSString uri)
                 = loady N W c (JSString nm) (JSString (dirname N fp)))
       \<and> (\<forall>W W' c b c' tr.
             loady N W c (JSString nm) (JSString uri) = Some (Inr b, c', tr) \<longrightarrow> truthy b \<longrightarrow>
             loady N W' c' (JSString nm) (JSString (dirname N fp)) = Some (Inr b, c', []))
       \<and> (\<forall>W W' c b c' tr.
             loady N W c (JSString nm) (JSString (dirname N fp)) = Some (Inr b, c', tr) \<longrightarrow> truthy b \<longrightarrow>
             loady N W' c' (JSString nm) (JSString uri) = Some (Inr b, c', []))"
proof -
  have e1: "ensurePath N uri = Inr (dirname N fp)"
    using assms(1-3) by (simp add: ensurePath_def)
  have e2: "ensurePath N (dirname N fp) = Inr (dirname N fp)"
    using assms(4) by (rule ensurePath_plain)
  have same: "loady N W c (JSString nm) (JSString uri)
                 = loady N W c (JSString nm) (JSString (dirname N fp))" for W c
    by (simp add: loady_resolve_with resolve_with_def e1 e2)
  have hit: "loady N W' c' (JSString nm) (JSString (dirname N fp)) = Some (Inr b, c', [])"
    if "loady N W c (JSString nm) (JSString (dirname N fp)) = Some (Inr b, c', tr)" "truthy b"
    for W W' c b c' tr
  proof -
    from loady_success [OF that(1)] e2
    have "c' (cache_key (normalize_name N nm) (dirname N fp)) = Some b" by auto
    with e2 that(2) show ?thesis by (simp add: loady_cached)
  qed
  from e1 e2 same hit show ?thesis by simp
qed

theorem uri_and_directory_share_cache_key_witness:
  "take 5 ''file:///proj/lib/index.js'' = ''file:''
   \<and> fileURLToPath posix = Some posix_fileURLToPath
   \<and> posix_fileURLToPath ''file:///proj/lib/index.js'' = Inr ''/proj/lib/index.js''
   \<and> dirname posix ''/proj/lib/index.js'' = ''/proj/lib''
   \<and> (\<forall>W c. loady posix W c (JSString ''foo'') (JSString ''file:///proj/lib/index.js'')
               = loady posix W c (JSString ''foo'') (JSString ''/proj/lib''))
   \<and> loady posix (disk [] []) [cache_key ''foo.node'' ''/proj/lib'' \<mapsto> JSObject 1]
         (JSString ''foo'') (JSString ''file:///proj/lib/index.js'') =
       Some (Inr (JSObject 1), [cache_key ''foo.node'' ''/proj/lib'' \<mapsto> JSObject 1], [])"
proof -
  have h1: "take 5 ''file:///proj/lib/index.js'' = ''file:''" by simp
  have h2: "fileURLToPath posix = Some posix_fileURLToPath" by (simp add: posix_def)
  have h3: "posix_fileURLToPath ''file:///proj/lib/index.js'' = Inr ''/proj/lib/index.js''"
    by (simp add: posix_simps)
  have d: "dirname posix ''/proj/lib/index.js'' = ''/proj/lib''"
    by (simp add: posix_simps)
  have h4: "take 5 (dirname posix ''/proj/lib/index.js'') \<noteq> ''file:''"
    by (simp add: d)
  note T = uri_and_directory_share_cache_key [OF h1 h2 h3 h4, of "''foo''", unfolded d]
  from T have same: "\<forall>W c. loady posix W c (JSString ''foo'') (JSString ''file:///proj/lib/index.js'')
               = loady posix W c (JSString ''foo'') (JSString ''/proj/lib'')"
    by blast
  from T have "\<forall>W W' c b c' tr.
      loady posix W c (JSString ''foo'') (JSString ''/proj/lib'') = Some (Inr b, c', tr) \<longrightarrow> truthy b \<longrightarrow>
      loady posix W' c' (JSString ''foo'') (JSString ''file:///proj/lib/index.js'') = Some (Inr b, c', [])"
    by blast
  from this [rule_format, OF run_release [of "JSObject 1"], of "disk [] []"]
  have "loady posix (disk [] []) [cache_key ''foo.node'' ''/proj/lib'' \<mapsto> JSObject 1]
         (JSString ''foo'') (JSString ''file:///proj/lib/index.js'') =
       Some (Inr (JSObject 1), [cache_key ''foo.node'' ''/proj/lib'' \<mapsto> JSObject 1], [])"
    by simp
  with h1 h2 h3 d same show ?thesis by blast
qed

text \<open>
  C10 as stated fails for a falsy artifact, for the reason given at C5: the
  call under the URI stores \<open>false\<close> under the shared key, and the call under
  the directory searches again.
\<close>

theorem falsy_result_under_uri_not_reused:
  "loady posix (disk [''/proj/package.json''] [(''/proj/build/Release/foo.node'', Inr (JSBoolean False))])
     Map.empty (JSString ''foo'') (JSString ''file:///proj/lib/index.js'') =
   Some (Inr (JSBoolean False), [cache_key ''foo.node'' ''/proj/lib'' \<mapsto> JSBoolean False],
         [ExistsSync ''/proj/lib/package.json'', ExistsSync ''/proj/lib/node_modules'',
          ExistsSync ''/proj/package.json'', Load ''/proj/build/foo.node'',
          Load ''/proj/build/Debug/foo.node'', Load ''/proj/build/Release/foo.node''])
   \<and> loady posix (disk [] []) [cache_key ''foo.node'' ''/proj/lib'' \<mapsto> JSBoolean False]
         (JSString ''foo'') (JSString ''/proj/lib'') =
       Some (Inl (ERR_BINDINGS_NO_ROOT (no_root_message ''/proj/lib'') ''/proj/lib''),
             [cache_key ''foo.node'' ''/proj/lib'' \<mapsto> JSBoolean False],
             [ExistsSync ''/proj/lib/package.json'', ExistsSync ''/proj/lib/node_modules'',
              ExistsSync ''/proj/package.json'', ExistsSync ''/proj/node_modules'',
              ExistsSync ''/package.json'', ExistsSync ''/node_modules''])"
  by (simp add: run_uri run_release run_nowhere_cached_falsy)

end
